theory Spec2Isabelle
  imports Main "HOL-Library.AList"
begin

section \<open>The schema of a dataset (tf\_metadata/dataset\_schema.py)\<close>

text \<open>
  A shallow embedding of \<^verbatim>\<open>tensorflow_transform/tf_metadata/dataset_schema.py\<close>.
  Every Python function that can raise returns a sum: \<open>Inl\<close> carries the exception,
  \<open>Inr\<close> the value returned. Names are the source's; a method \<^verbatim>\<open>C.m\<close> is written
  \<open>C_m\<close>, and a module-private name \<^verbatim>\<open>_f\<close> is written \<open>internal_f\<close> (a private
  constant \<^verbatim>\<open>_INT_TYPES\<close> is written \<open>INT_TYPES\<close>), since an Isabelle name starts
  with a letter.
\<close>

subsection \<open>Exceptions\<close>

text \<open>
  The exception classes the module raises, each with its message. A single quote inside
  a message is written through \<open>quoted\<close> below.
\<close>

datatype error =
    ValueError string
  | NotImplementedError string
  | TypeError string
  | AttributeError string

subsection \<open>TensorFlow's dtypes and shapes\<close>

text \<open>
  The module reads four things of a \<^verbatim>\<open>tf.DType\<close>: equality with another dtype, the
  properties \<^verbatim>\<open>is_integer\<close> and \<^verbatim>\<open>is_floating\<close>, and its string form. They belong to
  the TensorFlow library, not to this module.
  \<^item> A \<^verbatim>\<open>DType\<close> wraps an enumerator of \<^verbatim>\<open>types.proto\<close>; every enumerator has a
    reference twin (\<^verbatim>\<open>tf.int32_ref\<close> for \<^verbatim>\<open>tf.int32\<close>, the dtype of a variable's
    underlying tensor), and \<^verbatim>\<open>DType.__eq__\<close> compares the enumerators, so a reference
    dtype is different from its base dtype.
  \<^item> What \<^verbatim>\<open>is_integer\<close> and \<^verbatim>\<open>is_floating\<close> compute outside the common dtypes differs
    between releases of TensorFlow, and a property can raise. So \<open>dtype_to_domain\<close>
    below takes the two properties as parameters, each a function from a dtype to an
    exception or a truth value. \<open>tf_is_integer\<close> and \<open>tf_is_floating\<close> are the
    properties as TensorFlow 1.0 computes them, the instance used for concrete inputs.
\<close>

datatype type_enum =
    DT_FLOAT | DT_DOUBLE | DT_INT32 | DT_UINT8 | DT_INT16 | DT_INT8 | DT_STRING
  | DT_COMPLEX64 | DT_INT64 | DT_BOOL | DT_QINT8 | DT_QUINT8 | DT_QINT32
  | DT_BFLOAT16 | DT_QINT16 | DT_QUINT16 | DT_UINT16 | DT_COMPLEX128 | DT_HALF
  | DT_RESOURCE

datatype dtype = DType (base_enum: type_enum) (is_ref_dtype: bool)

abbreviation tf_float16 :: dtype where "tf_float16 \<equiv> DType DT_HALF False"
abbreviation tf_float32 :: dtype where "tf_float32 \<equiv> DType DT_FLOAT False"
abbreviation tf_float64 :: dtype where "tf_float64 \<equiv> DType DT_DOUBLE False"
abbreviation tf_int8 :: dtype where "tf_int8 \<equiv> DType DT_INT8 False"
abbreviation tf_uint8 :: dtype where "tf_uint8 \<equiv> DType DT_UINT8 False"
abbreviation tf_uint16 :: dtype where "tf_uint16 \<equiv> DType DT_UINT16 False"
abbreviation tf_int16 :: dtype where "tf_int16 \<equiv> DType DT_INT16 False"
abbreviation tf_int32 :: dtype where "tf_int32 \<equiv> DType DT_INT32 False"
abbreviation tf_int64 :: dtype where "tf_int64 \<equiv> DType DT_INT64 False"
abbreviation tf_bool :: dtype where "tf_bool \<equiv> DType DT_BOOL False"
abbreviation tf_string :: dtype where "tf_string \<equiv> DType DT_STRING False"
abbreviation tf_complex64 :: dtype where "tf_complex64 \<equiv> DType DT_COMPLEX64 False"
abbreviation tf_int32_ref :: dtype where "tf_int32_ref \<equiv> DType DT_INT32 True"

fun enum_name :: "type_enum \<Rightarrow> string" where
  "enum_name DT_FLOAT = ''float32''"
| "enum_name DT_DOUBLE = ''float64''"
| "enum_name DT_INT32 = ''int32''"
| "enum_name DT_UINT8 = ''uint8''"
| "enum_name DT_INT16 = ''int16''"
| "enum_name DT_INT8 = ''int8''"
| "enum_name DT_STRING = ''string''"
| "enum_name DT_COMPLEX64 = ''complex64''"
| "enum_name DT_INT64 = ''int64''"
| "enum_name DT_BOOL = ''bool''"
| "enum_name DT_QINT8 = ''qint8''"
| "enum_name DT_QUINT8 = ''quint8''"
| "enum_name DT_QINT32 = ''qint32''"
| "enum_name DT_BFLOAT16 = ''bfloat16''"
| "enum_name DT_QINT16 = ''qint16''"
| "enum_name DT_QUINT16 = ''quint16''"
| "enum_name DT_UINT16 = ''uint16''"
| "enum_name DT_COMPLEX128 = ''complex128''"
| "enum_name DT_HALF = ''float16''"
| "enum_name DT_RESOURCE = ''resource''"

text \<open>\<^verbatim>\<open>DType.name\<close>, and \<^verbatim>\<open>str(dtype)\<close> as \<^verbatim>\<open>'{}'.format(dtype)\<close> prints it.\<close>

definition dtype_name :: "dtype \<Rightarrow> string" where
  "dtype_name d = enum_name (base_enum d) @ (if is_ref_dtype d then ''_ref'' else '''')"

definition quoted :: "string \<Rightarrow> string" where
  "quoted s = [CHR 0x27] @ s @ [CHR 0x27]"

definition dtype_str :: "dtype \<Rightarrow> string" where
  "dtype_str d = ''<dtype: '' @ quoted (dtype_name d) @ ''>''"

text \<open>
  TensorFlow 1.0: \<^verbatim>\<open>is_integer\<close> is
  \<^verbatim>\<open>is_numpy_compatible and not is_quantized and issubclass(as_numpy_dtype, np.integer)\<close>
  and \<^verbatim>\<open>is_floating\<close> is
  \<^verbatim>\<open>is_numpy_compatible and issubclass(as_numpy_dtype, np.floating)\<close>. The numpy type of
  a reference dtype is that of its base dtype, so both ignore the reference flag. The
  numpy type of a quantized dtype is not a class, and \<^verbatim>\<open>issubclass\<close> raises TypeError
  on it; \<^verbatim>\<open>is_integer\<close> does not reach that call, \<^verbatim>\<open>is_floating\<close> does.
\<close>

definition tf_is_integer :: "dtype \<Rightarrow> error + bool" where
  "tf_is_integer d =
     Inr (base_enum d \<in> set [DT_INT8, DT_INT16, DT_INT32, DT_INT64, DT_UINT8, DT_UINT16])"

definition tf_is_floating :: "dtype \<Rightarrow> error + bool" where
  "tf_is_floating d =
     (if base_enum d \<in> set [DT_QINT8, DT_QUINT8, DT_QINT16, DT_QUINT16, DT_QINT32]
      then Inl (TypeError ''issubclass() arg 1 must be a class'')
      else Inr (base_enum d \<in> set [DT_HALF, DT_FLOAT, DT_DOUBLE]))"

text \<open>
  A \<^verbatim>\<open>tf.TensorShape\<close> holds \<^verbatim>\<open>dims\<close>: \<^verbatim>\<open>None\<close> when the rank is unknown, otherwise a
  list of dimensions, each a size or \<^verbatim>\<open>None\<close>. \<^verbatim>\<open>as_list\<close> raises on unknown rank.
\<close>

type_synonym TensorShape = "nat option list option"

definition as_list :: "TensorShape \<Rightarrow> error + nat option list" where
  "as_list s =
     (case s of
        None \<Rightarrow> Inl (ValueError ''as_list() is not defined on an unknown TensorShape.'')
      | Some ds \<Rightarrow> Inr ds)"

subsection \<open>Domains\<close>

text \<open>
  \<^verbatim>\<open>Domain\<close> is abstract; its four subclasses add nothing to it. Two domains are equal
  when they are of the same class and hold equal dtypes.
\<close>

datatype Domain =
    FloatDomain (dtype: dtype)
  | IntDomain (dtype: dtype)
  | StringDomain (dtype: dtype)
  | BoolDomain (dtype: dtype)

text \<open>
  \<^verbatim>\<open>dtype_to_domain\<close>, over the two properties of the dtype. A property that raises ends
  the call with its exception.
\<close>

definition dtype_to_domain ::
  "(dtype \<Rightarrow> error + bool) \<Rightarrow> (dtype \<Rightarrow> error + bool) \<Rightarrow> dtype \<Rightarrow> error + Domain" where
  "dtype_to_domain is_integer is_floating d =
     (case is_integer d of
        Inl e \<Rightarrow> Inl e
      | Inr i \<Rightarrow>
          if i then Inr (IntDomain d)
          else (case is_floating d of
                  Inl e \<Rightarrow> Inl e
                | Inr f \<Rightarrow>
                    if f then Inr (FloatDomain d)
                    else if d = tf_string then Inr (StringDomain d)
                    else if d = tf_bool then Inr (BoolDomain d)
                    else Inl (ValueError
                           (''Schema cannot accommodate dtype: '' @ dtype_str d))))"

definition BOOL_TYPES :: "dtype list" where
  "BOOL_TYPES = [tf_bool]"

definition INT_TYPES :: "dtype list" where
  "INT_TYPES = [tf_int8, tf_uint8, tf_uint16, tf_int16, tf_int32, tf_int64]"

definition FLOAT_TYPES :: "dtype list" where
  "FLOAT_TYPES = [tf_float16, tf_float32, tf_float64]"

definition STRING_TYPES :: "dtype list" where
  "STRING_TYPES = [tf_string]"

definition internal_dtype_to_domain :: "dtype \<Rightarrow> error + Domain" where
  "internal_dtype_to_domain d =
     (if d \<in> set BOOL_TYPES then Inr (BoolDomain d)
      else if d \<in> set INT_TYPES then Inr (IntDomain d)
      else if d \<in> set STRING_TYPES then Inr (StringDomain d)
      else if d \<in> set FLOAT_TYPES then Inr (FloatDomain d)
      else Inl (ValueError (''DatasetSchema does not yet support dtype: '' @ dtype_str d)))"

subsection \<open>Logical shapes\<close>

text \<open>
  The axes of a shape and the index fields of a sparse representation are Python
  sequences that the constructors store as they are given. The module takes their
  length, their first element and their elements in order, which a list and a tuple
  both allow, and it compares them with \<^verbatim>\<open>==\<close>, under which a list and a tuple are
  never equal. So a sequence is a list or a tuple of its elements.
\<close>

datatype 'a sequence =
    PyList (elements: "'a list")
  | PyTuple (elements: "'a list")

fun is_list :: "'a sequence \<Rightarrow> bool" where
  "is_list (PyList xs) = True"
| "is_list (PyTuple xs) = False"

text \<open>
  \<^verbatim>\<open>Axis.size\<close> is the length of the axis, \<^verbatim>\<open>None\<close> when unknown; a length is a natural
  number. The field is named \<open>axis_size\<close> here (\<open>size\<close> is a constant of HOL).
  \<^verbatim>\<open>LogicalShape.axes\<close> is \<^verbatim>\<open>None\<close> when the rank is unknown.
\<close>

record Axis =
  axis_size :: "nat option"

record LogicalShape =
  axes :: "Axis sequence option"

abbreviation mk_Axis :: "nat option \<Rightarrow> Axis" where
  "mk_Axis n \<equiv> \<lparr>axis_size = n\<rparr>"

abbreviation mk_LogicalShape :: "Axis sequence option \<Rightarrow> LogicalShape" where
  "mk_LogicalShape a \<equiv> \<lparr>axes = a\<rparr>"

definition LogicalShape_tf_shape :: "LogicalShape \<Rightarrow> TensorShape" where
  "LogicalShape_tf_shape s =
     (case axes s of
        None \<Rightarrow> None
      | Some ax \<Rightarrow> Some (map axis_size (elements ax)))"

text \<open>The loop of \<^verbatim>\<open>is_fixed_size\<close>: the first axis of unknown size returns \<^verbatim>\<open>False\<close>.\<close>

fun is_fixed_size_loop :: "Axis list \<Rightarrow> bool" where
  "is_fixed_size_loop [] = True"
| "is_fixed_size_loop (a # ax) =
     (if axis_size a = None then False else is_fixed_size_loop ax)"

definition LogicalShape_is_fixed_size :: "LogicalShape \<Rightarrow> bool" where
  "LogicalShape_is_fixed_size s =
     (case axes s of
        None \<Rightarrow> False
      | Some ax \<Rightarrow> is_fixed_size_loop (elements ax))"

text \<open>
  \<^verbatim>\<open>_tf_shape_to_logical_shape\<close>. Its argument is a \<^verbatim>\<open>TensorShape\<close> or a value that
  \<^verbatim>\<open>tf.TensorShape\<close> converts to one; the model takes the shape after that conversion.
  The axes it builds are a list (a list comprehension, and a slice of it).
\<close>

definition internal_tf_shape_to_logical_shape :: "TensorShape \<Rightarrow> bool \<Rightarrow> error + LogicalShape" where
  "internal_tf_shape_to_logical_shape tf_shape remove_batch_dimension =
     (case tf_shape of
        None \<Rightarrow> Inr (mk_LogicalShape None)
      | Some dims \<Rightarrow>
          (let ax = map mk_Axis dims in
           if remove_batch_dimension then
             (if length ax < 1 then Inl (ValueError ''Expected tf_shape to have rank >= 1'')
              else Inr (mk_LogicalShape (Some (PyList (drop 1 ax)))))
           else Inr (mk_LogicalShape (Some (PyList ax)))))"

subsection \<open>Columns and their representations\<close>

text \<open>
  A \<^verbatim>\<open>LogicalColumnSchema\<close> pairs a domain with a shape. The converters test
  \<^verbatim>\<open>logical_column.shape is None\<close>, so the shape is optional.
\<close>

record LogicalColumnSchema =
  domain :: Domain
  shape :: "LogicalShape option"

record SparseIndexField =
  name :: string
  is_sorted :: bool

text \<open>
  The three concrete subclasses of \<^verbatim>\<open>ColumnRepresentation\<close>, with the attributes their
  constructors store. The default value of a fixed column is any Python value or
  \<^verbatim>\<open>None\<close>; its type is a parameter.
\<close>

datatype 'v ColumnRepresentation =
    FixedColumnRepresentation (default_value: "'v option")
  | ListColumnRepresentation
  | SparseColumnRepresentation (value_field_name: string) (index_fields: "SparseIndexField sequence")

record 'v ColumnSchema =
  logical_column :: LogicalColumnSchema
  representation :: "'v ColumnRepresentation"

text \<open>
  A feature spec of TensorFlow's example parser: the four named tuples of
  \<^verbatim>\<open>tf.parse_example\<close>, and any other object (given by its string form). The shape of
  a \<^verbatim>\<open>FixedLenFeature\<close> is a value that \<^verbatim>\<open>tf.TensorShape\<close> accepts, held as the
  \<^verbatim>\<open>TensorShape\<close> it converts to (a Python list of sizes \<open>l\<close> is \<open>Some l\<close>).
\<close>

datatype 'v parse_feature =
    FixedLenFeature TensorShape dtype "'v option"
  | FixedLenSequenceFeature TensorShape dtype bool "'v option"
  | VarLenFeature dtype
  | SparseFeature string string dtype "nat option" bool
  | OtherFeature string

definition FixedColumnRepresentation_as_feature_spec ::
  "'v option \<Rightarrow> LogicalColumnSchema \<Rightarrow> error + 'v parse_feature" where
  "FixedColumnRepresentation_as_feature_spec dv lc =
     (case shape lc of
        None \<Rightarrow> Inl (ValueError ''A column of unknown size cannot be represented as fixed-size.'')
      | Some sh \<Rightarrow>
          if \<not> LogicalShape_is_fixed_size sh
          then Inl (ValueError ''A column of unknown size cannot be represented as fixed-size.'')
          else (case as_list (LogicalShape_tf_shape sh) of
                  Inl e \<Rightarrow> Inl e
                | Inr l \<Rightarrow> Inr (FixedLenFeature (Some l) (dtype (domain lc)) dv)))"

definition ListColumnRepresentation_as_feature_spec ::
  "LogicalColumnSchema \<Rightarrow> error + 'v parse_feature" where
  "ListColumnRepresentation_as_feature_spec lc = Inr (VarLenFeature (dtype (domain lc)))"

text \<open>
  \<^verbatim>\<open>len(ind) != 1 or len(logical_column.shape.axes) != 1\<close>: the second operand is
  evaluated only when there is one index field. There \<^verbatim>\<open>.axes\<close> of a shape that is
  \<^verbatim>\<open>None\<close> raises AttributeError and \<^verbatim>\<open>len\<close> of axes that are \<^verbatim>\<open>None\<close> raises TypeError.
\<close>

definition SparseColumnRepresentation_as_feature_spec ::
  "string \<Rightarrow> SparseIndexField sequence \<Rightarrow> LogicalColumnSchema \<Rightarrow> error + 'v parse_feature" where
  "SparseColumnRepresentation_as_feature_spec vf ind lc =
     (if length (elements ind) \<noteq> 1
      then Inl (ValueError ''tf.Example parser supports only 1-d sparse features.'')
      else (case shape lc of
              None \<Rightarrow> Inl (AttributeError (quoted ''NoneType'' @ '' object has no attribute '' @ quoted ''axes''))
            | Some sh \<Rightarrow>
                (case axes sh of
                   None \<Rightarrow> Inl (TypeError (''object of type '' @ quoted ''NoneType'' @ '' has no len()''))
                 | Some ax \<Rightarrow>
                     if length (elements ax) \<noteq> 1
                     then Inl (ValueError ''tf.Example parser supports only 1-d sparse features.'')
                     else (let index = elements ind ! 0 in
                           Inr (SparseFeature (name index) vf (dtype (domain lc))
                                  (axis_size (elements ax ! 0)) (is_sorted index))))))"

text \<open>The method call \<^verbatim>\<open>representation.as_feature_spec(logical_column)\<close>, by class.\<close>

fun ColumnRepresentation_as_feature_spec ::
  "'v ColumnRepresentation \<Rightarrow> LogicalColumnSchema \<Rightarrow> error + 'v parse_feature" where
  "ColumnRepresentation_as_feature_spec (FixedColumnRepresentation dv) lc =
     FixedColumnRepresentation_as_feature_spec dv lc"
| "ColumnRepresentation_as_feature_spec ListColumnRepresentation lc =
     ListColumnRepresentation_as_feature_spec lc"
| "ColumnRepresentation_as_feature_spec (SparseColumnRepresentation vf ind) lc =
     SparseColumnRepresentation_as_feature_spec vf ind lc"

definition ColumnSchema_as_feature_spec :: "'v ColumnSchema \<Rightarrow> error + 'v parse_feature" where
  "ColumnSchema_as_feature_spec cs =
     ColumnRepresentation_as_feature_spec (representation cs) (logical_column cs)"

definition ColumnSchema_merge :: "'v ColumnSchema \<Rightarrow> 'v ColumnSchema \<Rightarrow> error + unit" where
  "ColumnSchema_merge self other = Inl (NotImplementedError ''Merge not implemented yet.'')"

subsection \<open>Schemas\<close>

text \<open>
  A Python dict is a list of its items in iteration order; its keys are distinct.
  \<^verbatim>\<open>key in d\<close> and \<^verbatim>\<open>d[key]\<close> are \<open>map_of d key\<close>, and \<^verbatim>\<open>d[key] = value\<close> is
  \<open>AList.update key value d\<close>: it replaces the value of a key that is present and
  appends an item for a new key. Two dicts are equal when they have the same number of
  items and every item of the first is an item of the second, in any order.
\<close>

type_synonym ('k, 'a) dict = "('k \<times> 'a) list"

definition dict_eq :: "('k, 'a) dict \<Rightarrow> ('k, 'a) dict \<Rightarrow> bool" where
  "dict_eq a b = (length a = length b \<and> list_all (\<lambda>(k, v). map_of b k = Some v) a)"

text \<open>
  A dict comprehension \<^verbatim>\<open>{key: f(v) for key, v in d.items()}\<close>: the items are visited in
  order, and the first call of \<open>f\<close> that raises ends the comprehension.
\<close>

fun dict_comprehension ::
  "('a \<Rightarrow> error + 'b) \<Rightarrow> ('k, 'b) dict \<Rightarrow> ('k, 'a) dict \<Rightarrow> error + ('k, 'b) dict" where
  "dict_comprehension f acc [] = Inr acc"
| "dict_comprehension f acc ((key, v) # items) =
     (case f v of
        Inl e \<Rightarrow> Inl e
      | Inr y \<Rightarrow> dict_comprehension f (AList.update key y acc) items)"

record 'v Schema =
  column_schemas :: "(string, 'v ColumnSchema) dict"

text \<open>\<^verbatim>\<open>Schema.__new__\<close>: an argument that is \<^verbatim>\<open>None\<close> or empty becomes a new empty dict.\<close>

definition Schema_new :: "(string, 'v ColumnSchema) dict option \<Rightarrow> 'v Schema" where
  "Schema_new cs =
     (case cs of
        None \<Rightarrow> \<lparr>column_schemas = []\<rparr>
      | Some d \<Rightarrow> if d = [] then \<lparr>column_schemas = []\<rparr> else \<lparr>column_schemas = d\<rparr>)"

text \<open>\<^verbatim>\<open>Schema.__eq__\<close> compares the two named tuples as dicts of their fields.\<close>

definition Schema_eq :: "'v Schema \<Rightarrow> 'v Schema \<Rightarrow> bool" where
  "Schema_eq self other = dict_eq (column_schemas self) (column_schemas other)"

text \<open>
  \<^verbatim>\<open>Schema.merge\<close> changes the receiver's dict in place and returns nothing. The model
  returns how the call ended (\<open>Inr ()\<close> for a normal return, \<open>Inl\<close> for the exception)
  together with the receiver's dict at that moment: the items inserted before an
  exception stay inserted.
\<close>

fun merge_loop ::
  "(string, 'v ColumnSchema) dict \<Rightarrow> (string, 'v ColumnSchema) dict
     \<Rightarrow> (error + unit) \<times> (string, 'v ColumnSchema) dict" where
  "merge_loop self_columns [] = (Inr (), self_columns)"
| "merge_loop self_columns ((key, v) # items) =
     (case map_of self_columns key of
        Some c \<Rightarrow>
          (case ColumnSchema_merge c v of
             Inl e \<Rightarrow> (Inl e, self_columns)
           | Inr u \<Rightarrow> merge_loop self_columns items)
      | None \<Rightarrow> merge_loop (AList.update key v self_columns) items)"

definition Schema_merge :: "'v Schema \<Rightarrow> 'v Schema \<Rightarrow> (error + unit) \<times> 'v Schema" where
  "Schema_merge self other =
     (case merge_loop (column_schemas self) (column_schemas other) of
        (r, d) \<Rightarrow> (r, self\<lparr>column_schemas := d\<rparr>))"

definition Schema_as_feature_spec :: "'v Schema \<Rightarrow> error + (string, 'v parse_feature) dict" where
  "Schema_as_feature_spec self =
     dict_comprehension ColumnSchema_as_feature_spec [] (column_schemas self)"

subsection \<open>Converters\<close>

text \<open>
  \<^verbatim>\<open>_from_parse_feature\<close>. The keyword arguments of \<^verbatim>\<open>LogicalColumnSchema\<close> are
  evaluated in order, the domain before the shape.
\<close>

fun internal_from_parse_feature :: "'v parse_feature \<Rightarrow> error + 'v ColumnSchema" where
  "internal_from_parse_feature (FixedLenFeature sh dt dv) =
     (case internal_dtype_to_domain dt of
        Inl e \<Rightarrow> Inl e
      | Inr dmn \<Rightarrow>
          (case internal_tf_shape_to_logical_shape sh False of
             Inl e \<Rightarrow> Inl e
           | Inr ls \<Rightarrow>
               Inr \<lparr>logical_column = \<lparr>domain = dmn, shape = Some ls\<rparr>,
                    representation = FixedColumnRepresentation dv\<rparr>))"
| "internal_from_parse_feature (FixedLenSequenceFeature sh dt am dv) =
     Inl (ValueError ''DatasetSchema does not support FixedLenSequenceFeature yet.'')"
| "internal_from_parse_feature (VarLenFeature dt) =
     (case internal_dtype_to_domain dt of
        Inl e \<Rightarrow> Inl e
      | Inr dmn \<Rightarrow>
          Inr \<lparr>logical_column =
                 \<lparr>domain = dmn, shape = Some (mk_LogicalShape (Some (PyList [mk_Axis None])))\<rparr>,
               representation = ListColumnRepresentation\<rparr>)"
| "internal_from_parse_feature (SparseFeature index_key value_key dt sz already_sorted) =
     (case internal_dtype_to_domain dt of
        Inl e \<Rightarrow> Inl e
      | Inr dmn \<Rightarrow>
          Inr \<lparr>logical_column =
                 \<lparr>domain = dmn, shape = Some (mk_LogicalShape (Some (PyList [mk_Axis sz])))\<rparr>,
               representation =
                 SparseColumnRepresentation value_key
                   (PyList [\<lparr>name = index_key, is_sorted = already_sorted\<rparr>])\<rparr>)"
| "internal_from_parse_feature (OtherFeature r) =
     Inl (ValueError (''Cannot interpret feature spec: '' @ r))"

definition from_feature_spec :: "(string, 'v parse_feature) dict \<Rightarrow> error + 'v Schema" where
  "from_feature_spec feature_spec =
     (case dict_comprehension internal_from_parse_feature [] feature_spec of
        Inl e \<Rightarrow> Inl e
      | Inr d \<Rightarrow> Inr (Schema_new (Some d)))"

text \<open>
  A tensor is a \<^verbatim>\<open>tf.SparseTensor\<close> or a dense \<^verbatim>\<open>tf.Tensor\<close>; the module reads its
  \<^verbatim>\<open>dtype\<close> and, of a dense one, its static shape \<^verbatim>\<open>get_shape()\<close>. For a sparse tensor
  the second field is its static dense shape, which the module never reads.
\<close>

datatype tensor =
    Tensor dtype TensorShape
  | SparseTensor dtype TensorShape

fun infer_column_schema_from_tensor :: "tensor \<Rightarrow> error + 'v ColumnSchema" where
  "infer_column_schema_from_tensor (SparseTensor dt sh) =
     (case internal_dtype_to_domain dt of
        Inl e \<Rightarrow> Inl e
      | Inr dmn \<Rightarrow>
          Inr \<lparr>logical_column =
                 \<lparr>domain = dmn, shape = Some (mk_LogicalShape (Some (PyList [mk_Axis None])))\<rparr>,
               representation = ListColumnRepresentation\<rparr>)"
| "infer_column_schema_from_tensor (Tensor dt sh) =
     (case internal_dtype_to_domain dt of
        Inl e \<Rightarrow> Inl e
      | Inr dmn \<Rightarrow>
          (case internal_tf_shape_to_logical_shape sh True of
             Inl e \<Rightarrow> Inl e
           | Inr ls \<Rightarrow>
               Inr \<lparr>logical_column = \<lparr>domain = dmn, shape = Some ls\<rparr>,
                    representation = FixedColumnRepresentation None\<rparr>))"

subsection \<open>Predicates of the specification\<close>

text \<open>
  The dtypes \<^verbatim>\<open>_dtype_to_domain\<close> accepts: the members of its four lists.
\<close>

definition SUPPORTED_TYPES :: "dtype list" where
  "SUPPORTED_TYPES = BOOL_TYPES @ INT_TYPES @ STRING_TYPES @ FLOAT_TYPES"

text \<open>
  The two conversions of a dtype are equivalent at a dtype when both raise there or
  both return there, and return equal domains.
\<close>

definition dtype_conversions_agree ::
  "(dtype \<Rightarrow> error + bool) \<Rightarrow> (dtype \<Rightarrow> error + bool) \<Rightarrow> dtype \<Rightarrow> bool" where
  "dtype_conversions_agree is_integer is_floating d =
     (case (dtype_to_domain is_integer is_floating d, internal_dtype_to_domain d) of
        (Inl e, Inl e') \<Rightarrow> True
      | (Inr x, Inr y) \<Rightarrow> x = y
      | (Inl e, Inr y) \<Rightarrow> False
      | (Inr x, Inl e') \<Rightarrow> False)"

text \<open>
  What every release of TensorFlow gives for the two properties on the dtypes of the
  four lists: \<^verbatim>\<open>is_integer\<close> holds of the members of \<^verbatim>\<open>_INT_TYPES\<close>, \<^verbatim>\<open>is_floating\<close> and
  not \<^verbatim>\<open>is_integer\<close> of the members of \<^verbatim>\<open>_FLOAT_TYPES\<close>, and neither of \<^verbatim>\<open>tf.bool\<close> and
  \<^verbatim>\<open>tf.string\<close>.
\<close>

definition listed_properties ::
  "(dtype \<Rightarrow> error + bool) \<Rightarrow> (dtype \<Rightarrow> error + bool) \<Rightarrow> bool" where
  "listed_properties is_integer is_floating =
     (list_all (\<lambda>d. is_integer d = Inr True) INT_TYPES \<and>
      list_all (\<lambda>d. is_integer d = Inr False \<and> is_floating d = Inr True) FLOAT_TYPES \<and>
      list_all (\<lambda>d. is_integer d = Inr False \<and> is_floating d = Inr False)
        (BOOL_TYPES @ STRING_TYPES))"

text \<open>
  The dtypes that \<^verbatim>\<open>dtype_to_domain\<close> takes for integer or floating: \<^verbatim>\<open>is_integer\<close>
  holds, or it does not and \<^verbatim>\<open>is_floating\<close> holds.
\<close>

definition integer_or_floating ::
  "(dtype \<Rightarrow> error + bool) \<Rightarrow> (dtype \<Rightarrow> error + bool) \<Rightarrow> dtype \<Rightarrow> bool" where
  "integer_or_floating is_integer is_floating d =
     (is_integer d = Inr True \<or> (is_integer d = Inr False \<and> is_floating d = Inr True))"

text \<open>
  The round trip of a schema: to a feature spec and back.
\<close>

definition round_trip :: "'v Schema \<Rightarrow> error + 'v Schema" where
  "round_trip s =
     (case Schema_as_feature_spec s of
        Inl e \<Rightarrow> Inl e
      | Inr feature_spec \<Rightarrow> from_feature_spec feature_spec)"

text \<open>
  The precondition of a column's representation, as the specification gives it: a
  fixed-size shape for a fixed representation, exactly one index field and exactly one
  axis for a sparse one, nothing for a list.
\<close>

definition variant_precondition :: "'v ColumnSchema \<Rightarrow> bool" where
  "variant_precondition cs =
     (case representation cs of
        FixedColumnRepresentation dv \<Rightarrow>
          (case shape (logical_column cs) of
             None \<Rightarrow> False
           | Some sh \<Rightarrow> LogicalShape_is_fixed_size sh)
      | ListColumnRepresentation \<Rightarrow> True
      | SparseColumnRepresentation vf ind \<Rightarrow>
          length (elements ind) = 1 \<and>
          (case shape (logical_column cs) of
             None \<Rightarrow> False
           | Some sh \<Rightarrow>
               (case axes sh of None \<Rightarrow> False | Some ax \<Rightarrow> length (elements ax) = 1)))"

text \<open>
  What the round trip needs besides: the domain of the column is the one
  \<^verbatim>\<open>_dtype_to_domain\<close> gives to its dtype, and the shape of a column represented as a
  list is the single axis of unknown size.
\<close>

definition canonical_domain :: "Domain \<Rightarrow> bool" where
  "canonical_domain dmn = (internal_dtype_to_domain (dtype dmn) = Inr dmn)"

definition list_shape_is_ragged :: "'v ColumnSchema \<Rightarrow> bool" where
  "list_shape_is_ragged cs =
     (case representation cs of
        FixedColumnRepresentation dv \<Rightarrow> True
      | ListColumnRepresentation \<Rightarrow>
          shape (logical_column cs) = Some (mk_LogicalShape (Some (PyList [mk_Axis None])))
      | SparseColumnRepresentation vf ind \<Rightarrow> True)"

text \<open>
  And the axes of the shape and the index fields of a sparse representation are held
  as lists, as \<^verbatim>\<open>_from_parse_feature\<close> builds them.
\<close>

definition sequences_are_lists :: "'v ColumnSchema \<Rightarrow> bool" where
  "sequences_are_lists cs =
     ((case shape (logical_column cs) of
         None \<Rightarrow> True
       | Some sh \<Rightarrow> (case axes sh of None \<Rightarrow> True | Some ax \<Rightarrow> is_list ax)) \<and>
      (case representation cs of
         FixedColumnRepresentation dv \<Rightarrow> True
       | ListColumnRepresentation \<Rightarrow> True
       | SparseColumnRepresentation vf ind \<Rightarrow> is_list ind))"

definition round_trip_precondition :: "'v ColumnSchema \<Rightarrow> bool" where
  "round_trip_precondition cs =
     (variant_precondition cs \<and> canonical_domain (domain (logical_column cs)) \<and>
      list_shape_is_ragged cs \<and> sequences_are_lists cs)"

subsection \<open>Example columns\<close>

definition fixed_column :: "int ColumnSchema" where
  "fixed_column =
     \<lparr>logical_column =
        \<lparr>domain = IntDomain tf_int64,
         shape = Some (mk_LogicalShape (Some (PyList [mk_Axis (Some 2), mk_Axis (Some 3)])))\<rparr>,
      representation = FixedColumnRepresentation (Some 0)\<rparr>"

definition list_column :: "int ColumnSchema" where
  "list_column =
     \<lparr>logical_column =
        \<lparr>domain = StringDomain tf_string,
         shape = Some (mk_LogicalShape (Some (PyList [mk_Axis None])))\<rparr>,
      representation = ListColumnRepresentation\<rparr>"

definition sparse_column :: "int ColumnSchema" where
  "sparse_column =
     \<lparr>logical_column =
        \<lparr>domain = FloatDomain tf_float32,
         shape = Some (mk_LogicalShape (Some (PyList [mk_Axis (Some 10)])))\<rparr>,
      representation =
        SparseColumnRepresentation ''values''
          (PyList [\<lparr>name = ''indices'', is_sorted = True\<rparr>])\<rparr>"

text \<open>A list column whose logical shape has a known size.\<close>

definition sized_list_column :: "int ColumnSchema" where
  "sized_list_column =
     \<lparr>logical_column =
        \<lparr>domain = IntDomain tf_int64,
         shape = Some (mk_LogicalShape (Some (PyList [mk_Axis (Some 3)])))\<rparr>,
      representation = ListColumnRepresentation\<rparr>"

text \<open>A fixed column whose domain holds the reference dtype \<^verbatim>\<open>tf.int32_ref\<close>.\<close>

definition reference_column :: "int ColumnSchema" where
  "reference_column =
     \<lparr>logical_column =
        \<lparr>domain = IntDomain tf_int32_ref,
         shape = Some (mk_LogicalShape (Some (PyList [mk_Axis (Some 3)])))\<rparr>,
      representation = FixedColumnRepresentation None\<rparr>"

text \<open>The sparse column above with its index fields given as a tuple.\<close>

definition tuple_sparse_column :: "int ColumnSchema" where
  "tuple_sparse_column =
     \<lparr>logical_column =
        \<lparr>domain = FloatDomain tf_float32,
         shape = Some (mk_LogicalShape (Some (PyList [mk_Axis (Some 10)])))\<rparr>,
      representation =
        SparseColumnRepresentation ''values''
          (PyTuple [\<lparr>name = ''indices'', is_sorted = True\<rparr>])\<rparr>"

section \<open>Properties\<close>

lemmas dtype_defs =
  internal_dtype_to_domain_def BOOL_TYPES_def INT_TYPES_def STRING_TYPES_def FLOAT_TYPES_def

lemmas tf_dtype_defs = dtype_to_domain_def tf_is_integer_def tf_is_floating_def

subsection \<open>Domains of dtypes\<close>

lemma internal_dtype_to_domain_supported:
  "d \<in> set SUPPORTED_TYPES \<Longrightarrow> \<exists>x. internal_dtype_to_domain d = Inr x \<and> dtype x = d"
  by (auto simp: SUPPORTED_TYPES_def internal_dtype_to_domain_def)

lemma internal_dtype_to_domain_unsupported:
  "d \<notin> set SUPPORTED_TYPES \<Longrightarrow>
   internal_dtype_to_domain d =
     Inl (ValueError (''DatasetSchema does not yet support dtype: '' @ dtype_str d))"
  by (auto simp: SUPPORTED_TYPES_def internal_dtype_to_domain_def)

text \<open>On the dtypes of the four lists the two conversions return the same domain.\<close>

lemma dtype_to_domain_listed:
  assumes "listed_properties is_integer is_floating" and "d \<in> set SUPPORTED_TYPES"
  shows "\<exists>x. internal_dtype_to_domain d = Inr x \<and> dtype_to_domain is_integer is_floating d = Inr x"
  using assms
  by (auto simp: listed_properties_def SUPPORTED_TYPES_def dtype_defs dtype_to_domain_def)

text \<open>
  Outside the four lists \<^verbatim>\<open>dtype_to_domain\<close> returns a domain exactly on the dtypes it
  takes for integer or floating.
\<close>

lemma dtype_to_domain_unlisted:
  assumes "d \<notin> set SUPPORTED_TYPES"
  shows "(\<exists>x. dtype_to_domain is_integer is_floating d = Inr x) \<longleftrightarrow>
         integer_or_floating is_integer is_floating d"
proof -
  from assms have "d \<noteq> tf_string" "d \<noteq> tf_bool"
    by (auto simp: SUPPORTED_TYPES_def dtype_defs)
  then show ?thesis
    by (cases "is_integer d"; cases "is_floating d")
       (auto simp: dtype_to_domain_def integer_or_floating_def)
qed

text \<open>
  C9, as stated: \<^verbatim>\<open>dtype_to_domain\<close> and \<^verbatim>\<open>_dtype_to_domain\<close> are equivalent at every
  dtype. It fails at the reference dtype \<^verbatim>\<open>tf.int32_ref\<close>: \<^verbatim>\<open>is_integer\<close> holds of it,
  so \<^verbatim>\<open>dtype_to_domain\<close> returns an \<^verbatim>\<open>IntDomain\<close>, and it is not a member of
  \<^verbatim>\<open>_INT_TYPES\<close>, so \<^verbatim>\<open>_dtype_to_domain\<close> raises.
\<close>

theorem dtype_conversions_disagree_int32_ref:
  "dtype_to_domain tf_is_integer tf_is_floating tf_int32_ref = Inr (IntDomain tf_int32_ref) \<and>
   internal_dtype_to_domain tf_int32_ref =
     Inl (ValueError (''DatasetSchema does not yet support dtype: '' @ dtype_str tf_int32_ref)) \<and>
   \<not> dtype_conversions_agree tf_is_integer tf_is_floating tf_int32_ref"
  by (simp add: dtype_conversions_agree_def dtype_defs tf_dtype_defs)

text \<open>
  C9, amended: whenever the two properties are on the dtypes of the four lists what
  TensorFlow gives there, the two conversions are equivalent at every dtype except the
  dtypes outside the four lists that \<^verbatim>\<open>dtype_to_domain\<close> takes for integer or floating
  (\<^verbatim>\<open>is_integer\<close> holds, or \<^verbatim>\<open>is_floating\<close> does): there \<^verbatim>\<open>dtype_to_domain\<close> returns a
  domain and \<^verbatim>\<open>_dtype_to_domain\<close> raises. On each dtype of the four lists both return
  the same domain; on every other dtype both raise.
\<close>

theorem dtype_conversions_agree_iff:
  assumes "listed_properties is_integer is_floating"
  shows "(dtype_conversions_agree is_integer is_floating d \<longleftrightarrow>
      \<not> (d \<notin> set SUPPORTED_TYPES \<and> integer_or_floating is_integer is_floating d)) \<and>
    (d \<in> set SUPPORTED_TYPES \<longrightarrow>
      (\<exists>x. internal_dtype_to_domain d = Inr x \<and>
           dtype_to_domain is_integer is_floating d = Inr x)) \<and>
    (d \<notin> set SUPPORTED_TYPES \<and> integer_or_floating is_integer is_floating d \<longrightarrow>
      (\<exists>x e. dtype_to_domain is_integer is_floating d = Inr x \<and>
             internal_dtype_to_domain d = Inl e)) \<and>
    (d \<notin> set SUPPORTED_TYPES \<and> \<not> integer_or_floating is_integer is_floating d \<longrightarrow>
      (\<exists>e e'. dtype_to_domain is_integer is_floating d = Inl e \<and>
              internal_dtype_to_domain d = Inl e'))"
proof (cases "d \<in> set SUPPORTED_TYPES")
  case True
  with assms obtain x where "internal_dtype_to_domain d = Inr x"
    "dtype_to_domain is_integer is_floating d = Inr x"
    using dtype_to_domain_listed by blast
  with True show ?thesis by (simp add: dtype_conversions_agree_def)
next
  case False
  then have int: "internal_dtype_to_domain d =
      Inl (ValueError (''DatasetSchema does not yet support dtype: '' @ dtype_str d))"
    by (rule internal_dtype_to_domain_unsupported)
  show ?thesis
  proof (cases "integer_or_floating is_integer is_floating d")
    case True
    with False obtain x where "dtype_to_domain is_integer is_floating d = Inr x"
      using dtype_to_domain_unlisted by blast
    with False True int show ?thesis by (simp add: dtype_conversions_agree_def)
  next
    case nf: False
    with False have "\<not> (\<exists>x. dtype_to_domain is_integer is_floating d = Inr x)"
      using dtype_to_domain_unlisted by blast
    then obtain e where "dtype_to_domain is_integer is_floating d = Inl e"
      by (cases "dtype_to_domain is_integer is_floating d") auto
    with False nf int show ?thesis by (simp add: dtype_conversions_agree_def)
  qed
qed

text \<open>
  The amended C9 with the properties of TensorFlow 1.0: at \<^verbatim>\<open>tf.int32\<close>, a dtype of
  the lists; at \<^verbatim>\<open>tf.int32_ref\<close>, an integer dtype outside them; and at
  \<^verbatim>\<open>tf.complex64\<close>, a dtype outside them that is neither integer nor floating.
\<close>

theorem dtype_conversions_agree_iff_witness:
  "listed_properties tf_is_integer tf_is_floating \<and>
   tf_int32 \<in> set SUPPORTED_TYPES \<and>
   dtype_conversions_agree tf_is_integer tf_is_floating tf_int32 \<and>
   (\<exists>x. internal_dtype_to_domain tf_int32 = Inr x \<and>
        dtype_to_domain tf_is_integer tf_is_floating tf_int32 = Inr x) \<and>
   tf_int32_ref \<notin> set SUPPORTED_TYPES \<and>
   integer_or_floating tf_is_integer tf_is_floating tf_int32_ref \<and>
   \<not> dtype_conversions_agree tf_is_integer tf_is_floating tf_int32_ref \<and>
   tf_complex64 \<notin> set SUPPORTED_TYPES \<and>
   \<not> integer_or_floating tf_is_integer tf_is_floating tf_complex64 \<and>
   dtype_conversions_agree tf_is_integer tf_is_floating tf_complex64 \<and>
   (\<exists>e e'. dtype_to_domain tf_is_integer tf_is_floating tf_complex64 = Inl e \<and>
           internal_dtype_to_domain tf_complex64 = Inl e')"
proof -
  have h: "listed_properties tf_is_integer tf_is_floating"
    by (simp add: listed_properties_def dtype_defs tf_is_integer_def tf_is_floating_def)
  have m1: "tf_int32 \<in> set SUPPORTED_TYPES"
    and m2: "tf_int32_ref \<notin> set SUPPORTED_TYPES"
    and m3: "tf_complex64 \<notin> set SUPPORTED_TYPES"
    by (simp_all add: SUPPORTED_TYPES_def dtype_defs)
  have p2: "integer_or_floating tf_is_integer tf_is_floating tf_int32_ref"
    and p3: "\<not> integer_or_floating tf_is_integer tf_is_floating tf_complex64"
    by (simp_all add: integer_or_floating_def tf_is_integer_def tf_is_floating_def)
  from dtype_conversions_agree_iff [OF h, of tf_int32] m1
  have r1: "dtype_conversions_agree tf_is_integer tf_is_floating tf_int32"
    and r1': "\<exists>x. internal_dtype_to_domain tf_int32 = Inr x \<and>
        dtype_to_domain tf_is_integer tf_is_floating tf_int32 = Inr x"
    by blast+
  from dtype_conversions_agree_iff [OF h, of tf_int32_ref] m2 p2
  have r2: "\<not> dtype_conversions_agree tf_is_integer tf_is_floating tf_int32_ref"
    by blast
  from dtype_conversions_agree_iff [OF h, of tf_complex64] m3 p3
  have r3: "dtype_conversions_agree tf_is_integer tf_is_floating tf_complex64"
    and r3': "\<exists>e e'. dtype_to_domain tf_is_integer tf_is_floating tf_complex64 = Inl e \<and>
           internal_dtype_to_domain tf_complex64 = Inl e'"
    by blast+
  from h m1 r1 r1' m2 p2 r2 m3 p3 r3 r3' show ?thesis by blast
qed

subsection \<open>Shapes\<close>

lemma is_fixed_size_loop_iff:
  "is_fixed_size_loop ax \<longleftrightarrow> list_all (\<lambda>a. axis_size a \<noteq> None) ax"
  by (induction ax) auto

text \<open>
  C2, as stated: with the leading axis dropped, a shape of unknown rank is rejected.
  It is not: the rank test is made only when \<^verbatim>\<open>dims\<close> is not \<^verbatim>\<open>None\<close>, and a shape of
  unknown rank becomes a \<^verbatim>\<open>LogicalShape\<close> whose axes are \<^verbatim>\<open>None\<close>.
\<close>

theorem unknown_rank_is_not_rejected:
  "internal_tf_shape_to_logical_shape None True = Inr (mk_LogicalShape None)"
  by (simp add: internal_tf_shape_to_logical_shape_def)

text \<open>
  C2, amended: with the leading axis dropped, \<^verbatim>\<open>_tf_shape_to_logical_shape\<close> raises
  exactly on the shape of rank 0, and the exception is the ValueError about the rank;
  a shape of unknown rank gives the logical shape of unknown rank; a shape of rank at
  least 1 gives the logical shape of its dimensions but the first.
\<close>

theorem drop_batch_dimension:
  "internal_tf_shape_to_logical_shape None True = Inr (mk_LogicalShape None) \<and>
   internal_tf_shape_to_logical_shape (Some []) True =
     Inl (ValueError ''Expected tf_shape to have rank >= 1'') \<and>
   internal_tf_shape_to_logical_shape (Some (d # ds)) True =
     Inr (mk_LogicalShape (Some (PyList (map mk_Axis ds)))) \<and>
   ((\<exists>e. internal_tf_shape_to_logical_shape s True = Inl e) \<longleftrightarrow> s = Some [])"
  by (cases s) (auto simp add: internal_tf_shape_to_logical_shape_def Let_def)

subsection \<open>Representations as feature specs\<close>

text \<open>
  C3: for every logical column, \<^verbatim>\<open>FixedColumnRepresentation.as_feature_spec\<close> raises if
  and only if the shape is not fixed-size (no shape, no axes, or an axis of unknown
  size), and then it raises the ValueError about the unknown size; on a fixed-size
  shape it returns a \<^verbatim>\<open>FixedLenFeature\<close> with the sizes of the axes, the dtype of the
  domain and the default value of the representation.
\<close>

theorem FixedColumnRepresentation_as_feature_spec_correct:
  "(shape lc = Some sh \<and> axes sh = Some ax \<and>
    list_all (\<lambda>a. axis_size a \<noteq> None) (elements ax) \<longrightarrow>
      FixedColumnRepresentation_as_feature_spec dv lc =
        Inr (FixedLenFeature (Some (map axis_size (elements ax))) (dtype (domain lc)) dv)) \<and>
   ((\<exists>e. FixedColumnRepresentation_as_feature_spec dv lc = Inl e) \<longleftrightarrow>
      \<not> (case shape lc of None \<Rightarrow> False | Some s \<Rightarrow> LogicalShape_is_fixed_size s)) \<and>
   ((\<exists>e. FixedColumnRepresentation_as_feature_spec dv lc = Inl e) \<longrightarrow>
      FixedColumnRepresentation_as_feature_spec dv lc =
        Inl (ValueError ''A column of unknown size cannot be represented as fixed-size.'')) \<and>
   (LogicalShape_is_fixed_size s' \<longleftrightarrow>
      (case axes s' of
         None \<Rightarrow> False
       | Some ax' \<Rightarrow> list_all (\<lambda>a. axis_size a \<noteq> None) (elements ax')))"
  by (auto simp: FixedColumnRepresentation_as_feature_spec_def LogicalShape_is_fixed_size_def
      LogicalShape_tf_shape_def as_list_def is_fixed_size_loop_iff split: option.splits)

text \<open>
  C3 at an int32 column of shape \<open>[2, 3]\<close> with default value 7, and at a column with
  an axis of unknown size.
\<close>

theorem FixedColumnRepresentation_as_feature_spec_correct_witness:
  "shape \<lparr>domain = IntDomain tf_int32,
          shape = Some (mk_LogicalShape (Some (PyList [mk_Axis (Some 2), mk_Axis (Some 3)])))\<rparr> =
     Some (mk_LogicalShape (Some (PyList [mk_Axis (Some 2), mk_Axis (Some 3)]))) \<and>
   axes (mk_LogicalShape (Some (PyList [mk_Axis (Some 2), mk_Axis (Some 3)]))) =
     Some (PyList [mk_Axis (Some 2), mk_Axis (Some 3)]) \<and>
   list_all (\<lambda>a. axis_size a \<noteq> None)
     (elements (PyList [mk_Axis (Some 2), mk_Axis (Some 3)])) \<and>
   FixedColumnRepresentation_as_feature_spec (Some (7::int))
     \<lparr>domain = IntDomain tf_int32,
      shape = Some (mk_LogicalShape (Some (PyList [mk_Axis (Some 2), mk_Axis (Some 3)])))\<rparr> =
     Inr (FixedLenFeature (Some [Some 2, Some 3]) tf_int32 (Some 7)) \<and>
   (\<exists>e. FixedColumnRepresentation_as_feature_spec (Some (7::int))
     \<lparr>domain = IntDomain tf_int32,
      shape = Some (mk_LogicalShape (Some (PyList [mk_Axis (Some 2), mk_Axis None])))\<rparr> = Inl e) \<and>
   FixedColumnRepresentation_as_feature_spec (Some (7::int))
     \<lparr>domain = IntDomain tf_int32,
      shape = Some (mk_LogicalShape (Some (PyList [mk_Axis (Some 2), mk_Axis None])))\<rparr> =
     Inl (ValueError ''A column of unknown size cannot be represented as fixed-size.'')"
proof -
  let ?ax = "PyList [mk_Axis (Some 2), mk_Axis (Some 3)]"
  let ?lc = "\<lparr>domain = IntDomain tf_int32, shape = Some (mk_LogicalShape (Some ?ax))\<rparr>"
  let ?lc' = "\<lparr>domain = IntDomain tf_int32,
      shape = Some (mk_LogicalShape (Some (PyList [mk_Axis (Some 2), mk_Axis None])))\<rparr>"
  have h: "shape ?lc = Some (mk_LogicalShape (Some ?ax)) \<and>
      axes (mk_LogicalShape (Some ?ax)) = Some ?ax \<and>
      list_all (\<lambda>a. axis_size a \<noteq> None) (elements ?ax)"
    by simp
  have e: "\<exists>e. FixedColumnRepresentation_as_feature_spec (Some (7::int)) ?lc' = Inl e"
    by (simp add: FixedColumnRepresentation_as_feature_spec_def LogicalShape_is_fixed_size_def)
  from h FixedColumnRepresentation_as_feature_spec_correct
         [of ?lc "mk_LogicalShape (Some ?ax)" ?ax "Some (7::int)"]
  have r: "FixedColumnRepresentation_as_feature_spec (Some (7::int)) ?lc =
      Inr (FixedLenFeature (Some (map axis_size (elements ?ax))) (dtype (domain ?lc)) (Some 7))"
    by blast
  from e FixedColumnRepresentation_as_feature_spec_correct [of ?lc' _ _ "Some (7::int)"]
  have r': "FixedColumnRepresentation_as_feature_spec (Some (7::int)) ?lc' =
      Inl (ValueError ''A column of unknown size cannot be represented as fixed-size.'')"
    by blast
  from h r e r' show ?thesis by simp
qed

text \<open>
  C10: \<^verbatim>\<open>ListColumnRepresentation.as_feature_spec\<close> returns equal results on two
  logical columns with equal domains, whatever their shapes: the result is the
  \<^verbatim>\<open>VarLenFeature\<close> of the domain's dtype, and it never raises.
\<close>

theorem ListColumnRepresentation_as_feature_spec_ignores_shape:
  "domain lc1 = domain lc2 \<Longrightarrow>
   ListColumnRepresentation_as_feature_spec lc1 = ListColumnRepresentation_as_feature_spec lc2 \<and>
   ListColumnRepresentation_as_feature_spec lc1 = Inr (VarLenFeature (dtype (domain lc1)))"
  by (simp add: ListColumnRepresentation_as_feature_spec_def)

text \<open>C10 at two float32 columns, one of shape \<open>[3]\<close> and one of unknown rank.\<close>

theorem ListColumnRepresentation_as_feature_spec_ignores_shape_witness:
  "domain \<lparr>domain = FloatDomain tf_float32,
           shape = Some (mk_LogicalShape (Some (PyList [mk_Axis (Some 3)])))\<rparr> =
   domain \<lparr>domain = FloatDomain tf_float32, shape = Some (mk_LogicalShape None)\<rparr> \<and>
   (ListColumnRepresentation_as_feature_spec
      \<lparr>domain = FloatDomain tf_float32,
       shape = Some (mk_LogicalShape (Some (PyList [mk_Axis (Some 3)])))\<rparr> :: error + int parse_feature) =
   ListColumnRepresentation_as_feature_spec
      \<lparr>domain = FloatDomain tf_float32, shape = Some (mk_LogicalShape None)\<rparr> \<and>
   (ListColumnRepresentation_as_feature_spec
      \<lparr>domain = FloatDomain tf_float32,
       shape = Some (mk_LogicalShape (Some (PyList [mk_Axis (Some 3)])))\<rparr> :: error + int parse_feature) =
   Inr (VarLenFeature tf_float32)"
proof -
  let ?a = "\<lparr>domain = FloatDomain tf_float32,
             shape = Some (mk_LogicalShape (Some (PyList [mk_Axis (Some 3)])))\<rparr>"
  let ?b = "\<lparr>domain = FloatDomain tf_float32, shape = Some (mk_LogicalShape None)\<rparr>"
  have h: "domain ?a = domain ?b" by simp
  from ListColumnRepresentation_as_feature_spec_ignores_shape [OF h] h
  show ?thesis by simp
qed

text \<open>
  When the logical column has a shape and the shape has axes,
  \<^verbatim>\<open>SparseColumnRepresentation.as_feature_spec\<close> raises the ValueError about 1-d sparse
  features unless there is exactly one index field and exactly one axis, and otherwise
  returns the \<^verbatim>\<open>SparseFeature\<close> of the index field, the value field, the dtype and the
  size of the axis.
\<close>

lemma SparseColumnRepresentation_as_feature_spec_axes_present:
  "shape lc = Some sh \<Longrightarrow> axes sh = Some ax \<Longrightarrow>
   SparseColumnRepresentation_as_feature_spec vf ind lc =
     (if length (elements ind) = 1 \<and> length (elements ax) = 1
      then Inr (SparseFeature (name (hd (elements ind))) vf (dtype (domain lc))
                  (axis_size (hd (elements ax))) (is_sorted (hd (elements ind))))
      else Inl (ValueError ''tf.Example parser supports only 1-d sparse features.''))"
  by (cases "elements ind"; cases "elements ax")
     (auto simp: SparseColumnRepresentation_as_feature_spec_def)

lemma SparseColumnRepresentation_as_feature_spec_index_fields:
  "length (elements ind) \<noteq> 1 \<Longrightarrow>
   SparseColumnRepresentation_as_feature_spec vf ind lc =
     Inl (ValueError ''tf.Example parser supports only 1-d sparse features.'')"
  by (simp add: SparseColumnRepresentation_as_feature_spec_def)

text \<open>
  C4 says that the conversion of a sparse representation raises the error about the
  rank whenever the shape does not have exactly one axis. On a column with one index
  field and a shape of unknown rank (axes \<^verbatim>\<open>None\<close>) the method raises a TypeError
  instead: \<^verbatim>\<open>len(logical_column.shape.axes)\<close> is evaluated on \<^verbatim>\<open>None\<close>. The fixed
  representation tests for this case (\<^verbatim>\<open>is_fixed_size\<close>); the sparse one misses it.
\<close>

theorem SparseColumnRepresentation_as_feature_spec_unknown_rank:
  "SparseColumnRepresentation_as_feature_spec ''v''
      (PyList [\<lparr>name = ''i'', is_sorted = True\<rparr>])
      \<lparr>domain = IntDomain tf_int64, shape = Some (mk_LogicalShape None)\<rparr> =
   Inl (TypeError (''object of type '' @ quoted ''NoneType'' @ '' has no len()''))"
  by (simp add: SparseColumnRepresentation_as_feature_spec_def)

subsection \<open>Inference from a tensor\<close>

text \<open>
  C8: for every dense tensor of dtype \<^verbatim>\<open>tf.int32\<close> and shape \<open>[batch, 3]\<close>, whatever the
  batch size (known or not), \<^verbatim>\<open>infer_column_schema_from_tensor\<close> returns the column
  schema with the \<^verbatim>\<open>IntDomain\<close> of \<^verbatim>\<open>tf.int32\<close>, the shape of the single axis of size 3
  and the fixed representation with default value \<^verbatim>\<open>None\<close>.
\<close>

theorem infer_column_schema_from_dense_int32:
  "infer_column_schema_from_tensor (Tensor tf_int32 (Some [batch, Some 3])) =
   Inr \<lparr>logical_column =
          \<lparr>domain = IntDomain tf_int32,
           shape = Some (mk_LogicalShape (Some (PyList [mk_Axis (Some 3)])))\<rparr>,
        representation = FixedColumnRepresentation None\<rparr>"
  by (simp add: dtype_defs internal_tf_shape_to_logical_shape_def)

text \<open>
  C7, as stated: inference returns a column schema for every sparse tensor, whatever
  its dtype. It raises on a sparse tensor of dtype \<^verbatim>\<open>tf.complex64\<close>, which
  \<^verbatim>\<open>_dtype_to_domain\<close> does not accept.
\<close>

theorem sparse_complex64_is_rejected:
  "infer_column_schema_from_tensor (SparseTensor tf_complex64 (Some [Some 2, Some 5])) =
   Inl (ValueError (''DatasetSchema does not yet support dtype: '' @ dtype_str tf_complex64))"
  by (simp add: dtype_defs)

text \<open>
  C7, amended: for every sparse tensor whose dtype \<^verbatim>\<open>_dtype_to_domain\<close> accepts,
  inference returns a column schema with a domain of that dtype, the shape of a single
  axis of unknown size and the list representation; for every other dtype it raises
  the ValueError of \<^verbatim>\<open>_dtype_to_domain\<close>. Whatever it returns has the list
  representation (never a sparse one) and that shape, and the outcome does not depend
  on the dense shape of the tensor.
\<close>

theorem infer_column_schema_from_sparse:
  "(dt \<in> set SUPPORTED_TYPES \<longrightarrow>
      (\<exists>dmn. dtype dmn = dt \<and>
         infer_column_schema_from_tensor (SparseTensor dt sh) =
           Inr \<lparr>logical_column =
                  \<lparr>domain = dmn, shape = Some (mk_LogicalShape (Some (PyList [mk_Axis None])))\<rparr>,
                representation = ListColumnRepresentation\<rparr>)) \<and>
   (dt \<notin> set SUPPORTED_TYPES \<longrightarrow>
      infer_column_schema_from_tensor (SparseTensor dt sh) =
        Inl (ValueError (''DatasetSchema does not yet support dtype: '' @ dtype_str dt))) \<and>
   (infer_column_schema_from_tensor (SparseTensor dt sh) = Inr cs \<longrightarrow>
      representation cs = ListColumnRepresentation \<and>
      shape (logical_column cs) = Some (mk_LogicalShape (Some (PyList [mk_Axis None])))) \<and>
   infer_column_schema_from_tensor (SparseTensor dt sh) =
     infer_column_schema_from_tensor (SparseTensor dt sh')"
proof (intro conjI impI)
  assume "dt \<in> set SUPPORTED_TYPES"
  then obtain x where "internal_dtype_to_domain dt = Inr x" "dtype x = dt"
    using internal_dtype_to_domain_supported by blast
  then show "\<exists>dmn. dtype dmn = dt \<and>
         infer_column_schema_from_tensor (SparseTensor dt sh) =
           Inr \<lparr>logical_column =
                  \<lparr>domain = dmn, shape = Some (mk_LogicalShape (Some (PyList [mk_Axis None])))\<rparr>,
                representation = ListColumnRepresentation\<rparr>"
    by simp
next
  assume "dt \<notin> set SUPPORTED_TYPES"
  then show "infer_column_schema_from_tensor (SparseTensor dt sh) =
        Inl (ValueError (''DatasetSchema does not yet support dtype: '' @ dtype_str dt))"
    by (simp add: internal_dtype_to_domain_unsupported)
next
  assume "infer_column_schema_from_tensor (SparseTensor dt sh) = Inr cs"
  then show "representation cs = ListColumnRepresentation"
    by (auto split: sum.splits)
next
  assume "infer_column_schema_from_tensor (SparseTensor dt sh) = Inr cs"
  then show "shape (logical_column cs) = Some (mk_LogicalShape (Some (PyList [mk_Axis None])))"
    by (auto split: sum.splits)
next
  show "infer_column_schema_from_tensor (SparseTensor dt sh) =
      infer_column_schema_from_tensor (SparseTensor dt sh')"
    by simp
qed

text \<open>
  The amended C7 at a sparse float32 tensor of dense shape \<open>[?, 10]\<close> and at a sparse
  complex64 tensor.
\<close>

theorem infer_column_schema_from_sparse_witness:
  "tf_float32 \<in> set SUPPORTED_TYPES \<and>
   infer_column_schema_from_tensor (SparseTensor tf_float32 (Some [None, Some 10])) =
     Inr \<lparr>logical_column =
            \<lparr>domain = FloatDomain tf_float32,
             shape = Some (mk_LogicalShape (Some (PyList [mk_Axis None])))\<rparr>,
          representation = (ListColumnRepresentation :: int ColumnRepresentation)\<rparr> \<and>
   tf_complex64 \<notin> set SUPPORTED_TYPES \<and>
   (infer_column_schema_from_tensor (SparseTensor tf_complex64 None) :: error + int ColumnSchema) =
     Inl (ValueError (''DatasetSchema does not yet support dtype: '' @ dtype_str tf_complex64))"
proof -
  have h: "tf_float32 \<in> set SUPPORTED_TYPES"
    by (simp add: SUPPORTED_TYPES_def dtype_defs)
  have h': "tf_complex64 \<notin> set SUPPORTED_TYPES"
    by (simp add: SUPPORTED_TYPES_def dtype_defs)
  from h infer_column_schema_from_sparse [of tf_float32 "Some [None, Some 10]", where ?'a = int]
  obtain dmn where d: "dtype dmn = tf_float32"
    and r: "(infer_column_schema_from_tensor (SparseTensor tf_float32 (Some [None, Some 10]))
              :: error + int ColumnSchema) =
        Inr \<lparr>logical_column =
               \<lparr>domain = dmn, shape = Some (mk_LogicalShape (Some (PyList [mk_Axis None])))\<rparr>,
             representation = ListColumnRepresentation\<rparr>"
    by blast
  have "dmn = FloatDomain tf_float32"
    using r by (simp add: dtype_defs)
  with r have r1: "(infer_column_schema_from_tensor
        (SparseTensor tf_float32 (Some [None, Some 10])) :: error + int ColumnSchema) =
      Inr \<lparr>logical_column =
             \<lparr>domain = FloatDomain tf_float32,
              shape = Some (mk_LogicalShape (Some (PyList [mk_Axis None])))\<rparr>,
           representation = ListColumnRepresentation\<rparr>"
    by simp
  from h' infer_column_schema_from_sparse [of tf_complex64 None, where ?'a = int]
  have r2: "(infer_column_schema_from_tensor (SparseTensor tf_complex64 None)
        :: error + int ColumnSchema) =
      Inl (ValueError (''DatasetSchema does not yet support dtype: '' @ dtype_str tf_complex64))"
    by blast
  from h h' r1 r2 show ?thesis by simp
qed

subsection \<open>Dicts\<close>

lemma update_new_key: "map_of d k = None \<Longrightarrow> AList.update k v d = d @ [(k, v)]"
  by (induction d) (auto split: if_splits)

lemma dict_eq_refl: "distinct (map fst a) \<Longrightarrow> dict_eq a a"
  by (auto simp: dict_eq_def list_all_iff)

text \<open>
  A comprehension over a dict whose every value is converted without an exception
  returns the items with the converted values, in the same order.
\<close>

lemma dict_comprehension_ok:
  "distinct (map fst xs) \<Longrightarrow> \<forall>k \<in> fst ` set xs. map_of acc k = None \<Longrightarrow>
   \<forall>v \<in> snd ` set xs. f v = Inr (g v) \<Longrightarrow>
   dict_comprehension f acc xs = Inr (acc @ map (\<lambda>(k, v). (k, g v)) xs)"
proof (induction xs arbitrary: acc)
  case Nil
  then show ?case by simp
next
  case (Cons p xs)
  obtain k v where p: "p = (k, v)" by (cases p)
  from Cons.prems p have new: "map_of acc k = None" and fv: "f v = Inr (g v)" by auto
  from Cons.prems p have k_notin: "k \<notin> fst ` set xs" by auto
  have "\<forall>k' \<in> fst ` set xs. map_of (acc @ [(k, g v)]) k' = None"
  proof
    fix k' assume k': "k' \<in> fst ` set xs"
    with k_notin have "k' \<noteq> k" by auto
    moreover from Cons.prems k' have "map_of acc k' = None" by auto
    ultimately show "map_of (acc @ [(k, g v)]) k' = None"
      by (simp add: map_add_def)
  qed
  moreover from Cons.prems have "distinct (map fst xs)" "\<forall>v \<in> snd ` set xs. f v = Inr (g v)"
    by simp_all
  ultimately have "dict_comprehension f (acc @ [(k, g v)]) xs =
     Inr ((acc @ [(k, g v)]) @ map (\<lambda>(k, v). (k, g v)) xs)"
    by (intro Cons.IH)
  with new fv p show ?case by (simp add: update_new_key)
qed

subsection \<open>Merging schemas\<close>

lemma merge_loop_disjoint:
  "distinct (map fst ys) \<Longrightarrow> \<forall>k \<in> fst ` set ys. map_of xs k = None \<Longrightarrow>
   merge_loop xs ys = (Inr (), xs @ ys)"
proof (induction ys arbitrary: xs)
  case Nil
  then show ?case by simp
next
  case (Cons p ys)
  obtain k v where p: "p = (k, v)" by (cases p)
  from Cons.prems p have new: "map_of xs k = None" by simp
  from Cons.prems p have k_notin: "k \<notin> fst ` set ys" by auto
  have "\<forall>k' \<in> fst ` set ys. map_of (xs @ [(k, v)]) k' = None"
  proof
    fix k' assume k': "k' \<in> fst ` set ys"
    with k_notin have "k' \<noteq> k" by auto
    moreover from Cons.prems k' have "map_of xs k' = None" by auto
    ultimately show "map_of (xs @ [(k, v)]) k' = None"
      by (simp add: map_add_def)
  qed
  moreover from Cons.prems have "distinct (map fst ys)" by simp
  ultimately have "merge_loop (xs @ [(k, v)]) ys = (Inr (), (xs @ [(k, v)]) @ ys)"
    by (rule Cons.IH[rotated])
  with new p show ?case by (simp add: update_new_key)
qed

lemma takeWhile_new_key:
  "k \<notin> fst ` set ys \<Longrightarrow>
   takeWhile (\<lambda>(k', v'). map_of (xs @ [(k, v)]) k' = None) ys =
   takeWhile (\<lambda>(k', v'). map_of xs k' = None) ys"
proof (rule takeWhile_cong)
  fix x assume x: "x \<in> set ys" and "k \<notin> fst ` set ys"
  then have "fst x \<noteq> k" by force
  then show "(case x of (k', v') \<Rightarrow> map_of (xs @ [(k, v)]) k' = None) =
             (case x of (k', v') \<Rightarrow> map_of xs k' = None)"
    by (cases x) (simp add: map_add_def split: option.splits)
qed simp

lemma merge_loop_shared:
  "distinct (map fst ys) \<Longrightarrow> \<exists>k \<in> fst ` set ys. map_of xs k \<noteq> None \<Longrightarrow>
   merge_loop xs ys =
     (Inl (NotImplementedError ''Merge not implemented yet.''),
      xs @ takeWhile (\<lambda>(k, v). map_of xs k = None) ys)"
proof (induction ys arbitrary: xs)
  case Nil
  then show ?case by simp
next
  case (Cons p ys)
  obtain k v where p: "p = (k, v)" by (cases p)
  show ?case
  proof (cases "map_of xs k")
    case (Some c)
    with p show ?thesis by (simp add: ColumnSchema_merge_def)
  next
    case None
    from Cons.prems p have k_notin: "k \<notin> fst ` set ys" by auto
    from Cons.prems(2) p None obtain k' where k': "k' \<in> fst ` set ys" "map_of xs k' \<noteq> None"
      by auto
    then have "map_of (xs @ [(k, v)]) k' \<noteq> None"
      by (auto simp: map_add_def split: option.splits)
    with k' have "\<exists>j \<in> fst ` set ys. map_of (xs @ [(k, v)]) j \<noteq> None" by blast
    moreover from Cons.prems have "distinct (map fst ys)" by simp
    ultimately have "merge_loop (xs @ [(k, v)]) ys =
       (Inl (NotImplementedError ''Merge not implemented yet.''),
        (xs @ [(k, v)]) @ takeWhile (\<lambda>(k', v'). map_of (xs @ [(k, v)]) k' = None) ys)"
      by (rule Cons.IH[rotated])
    then have "merge_loop (xs @ [(k, v)]) ys =
       (Inl (NotImplementedError ''Merge not implemented yet.''),
        (xs @ [(k, v)]) @ takeWhile (\<lambda>(k', v'). map_of xs k' = None) ys)"
      by (simp only: takeWhile_new_key [OF k_notin])
    with None p show ?thesis
      by (simp add: update_new_key)
  qed
qed

lemma disjoint_names_new:
  "fst ` set xs \<inter> fst ` set ys = {} \<Longrightarrow> \<forall>k \<in> fst ` set ys. map_of xs k = None"
  by (auto simp: map_of_eq_None_iff)

lemma shared_name_present:
  "fst ` set xs \<inter> fst ` set ys \<noteq> {} \<Longrightarrow> \<exists>k \<in> fst ` set ys. map_of xs k \<noteq> None"
proof -
  assume "fst ` set xs \<inter> fst ` set ys \<noteq> {}"
  then obtain k where "k \<in> fst ` set xs" "k \<in> fst ` set ys" by blast
  then show ?thesis by (metis map_of_eq_None_iff)
qed

text \<open>
  C5: for two schemas with disjoint sets of column names, \<^verbatim>\<open>Schema.merge\<close> returns
  normally and leaves in the receiver the union of the two mappings: the number of
  columns is the sum of the two numbers, the names stay distinct, and each name is
  mapped to the column schema of the input that has it.
\<close>

theorem Schema_merge_disjoint:
  assumes "distinct (map fst (column_schemas self))"
    and "distinct (map fst (column_schemas other))"
    and "fst ` set (column_schemas self) \<inter> fst ` set (column_schemas other) = {}"
  shows "fst (Schema_merge self other) = Inr () \<and>
    map_of (column_schemas (snd (Schema_merge self other))) =
      map_of (column_schemas self) ++ map_of (column_schemas other) \<and>
    length (column_schemas (snd (Schema_merge self other))) =
      length (column_schemas self) + length (column_schemas other) \<and>
    distinct (map fst (column_schemas (snd (Schema_merge self other)))) \<and>
    (\<forall>k c. map_of (column_schemas self) k = Some c \<longrightarrow>
       map_of (column_schemas (snd (Schema_merge self other))) k = Some c) \<and>
    (\<forall>k c. map_of (column_schemas other) k = Some c \<longrightarrow>
       map_of (column_schemas (snd (Schema_merge self other))) k = Some c)"
proof -
  let ?xs = "column_schemas self" and ?ys = "column_schemas other"
  from assms(3) have new: "\<forall>k \<in> fst ` set ?ys. map_of ?xs k = None"
    by (rule disjoint_names_new)
  with assms(2) have loop: "merge_loop ?xs ?ys = (Inr (), ?xs @ ?ys)"
    by (rule merge_loop_disjoint)
  then have res: "Schema_merge self other = (Inr (), self\<lparr>column_schemas := ?xs @ ?ys\<rparr>)"
    by (simp add: Schema_merge_def)
  have doms: "dom (map_of ?ys) \<inter> dom (map_of ?xs) = {}"
    using assms(3) by (auto simp: dom_map_of_conv_image_fst)
  have union: "map_of (?xs @ ?ys) = map_of ?xs ++ map_of ?ys"
    using map_add_comm [OF doms] by simp
  have self_kept: "map_of (?xs @ ?ys) k = Some c" if "map_of ?xs k = Some c" for k c
    using that by (simp add: map_add_def)
  have other_kept: "map_of (?xs @ ?ys) k = Some c" if "map_of ?ys k = Some c" for k c
  proof -
    from that have "k \<in> dom (map_of ?ys)" by blast
    with doms have "map_of ?xs k = None" by blast
    with that show ?thesis by (simp add: map_add_def)
  qed
  have dist: "distinct (map fst (?xs @ ?ys))"
    using assms by auto
  from res union dist self_kept other_kept show ?thesis by simp
qed

text \<open>C5 at a receiver with one column and an argument with two others.\<close>

theorem Schema_merge_disjoint_witness:
  "distinct (map fst (column_schemas \<lparr>column_schemas = [(''a'', fixed_column)]\<rparr>)) \<and>
   distinct (map fst (column_schemas
     \<lparr>column_schemas = [(''b'', list_column), (''c'', sparse_column)]\<rparr>)) \<and>
   fst ` set (column_schemas \<lparr>column_schemas = [(''a'', fixed_column)]\<rparr>) \<inter>
   fst ` set (column_schemas
     \<lparr>column_schemas = [(''b'', list_column), (''c'', sparse_column)]\<rparr>) = {} \<and>
   Schema_merge \<lparr>column_schemas = [(''a'', fixed_column)]\<rparr>
     \<lparr>column_schemas = [(''b'', list_column), (''c'', sparse_column)]\<rparr> =
     (Inr (), \<lparr>column_schemas =
        [(''a'', fixed_column), (''b'', list_column), (''c'', sparse_column)]\<rparr>) \<and>
   length (column_schemas (snd (Schema_merge \<lparr>column_schemas = [(''a'', fixed_column)]\<rparr>
     \<lparr>column_schemas = [(''b'', list_column), (''c'', sparse_column)]\<rparr>))) = 3"
proof -
  let ?self = "\<lparr>column_schemas = [(''a'', fixed_column)]\<rparr>"
  let ?other = "\<lparr>column_schemas = [(''b'', list_column), (''c'', sparse_column)]\<rparr>"
  have h1: "distinct (map fst (column_schemas ?self))" by simp
  have h2: "distinct (map fst (column_schemas ?other))" by simp
  have h3: "fst ` set (column_schemas ?self) \<inter> fst ` set (column_schemas ?other) = {}"
    by simp
  have v: "Schema_merge ?self ?other =
      (Inr (), \<lparr>column_schemas =
         [(''a'', fixed_column), (''b'', list_column), (''c'', sparse_column)]\<rparr>)"
    by (simp add: Schema_merge_def)
  from Schema_merge_disjoint [OF h1 h2 h3]
  have "length (column_schemas (snd (Schema_merge ?self ?other))) =
      length (column_schemas ?self) + length (column_schemas ?other)"
    by blast
  then have "length (column_schemas (snd (Schema_merge ?self ?other))) = 3" by simp
  with h1 h2 h3 v show ?thesis by blast
qed

text \<open>
  C6: for two schemas that share a column name, \<^verbatim>\<open>Schema.merge\<close> raises the
  NotImplementedError of \<^verbatim>\<open>ColumnSchema.merge\<close> when it reaches the first shared name.
  The receiver then holds its own columns, none of them replaced or combined, followed
  by the columns of the argument that come before the first shared name.
\<close>

theorem Schema_merge_shared_name:
  assumes "distinct (map fst (column_schemas other))"
    and "fst ` set (column_schemas self) \<inter> fst ` set (column_schemas other) \<noteq> {}"
  shows "Schema_merge self other =
      (Inl (NotImplementedError ''Merge not implemented yet.''),
       self\<lparr>column_schemas := column_schemas self @
          takeWhile (\<lambda>(k, v). map_of (column_schemas self) k = None) (column_schemas other)\<rparr>) \<and>
    (\<forall>k c. map_of (column_schemas self) k = Some c \<longrightarrow>
       map_of (column_schemas (snd (Schema_merge self other))) k = Some c)"
proof -
  let ?xs = "column_schemas self" and ?ys = "column_schemas other"
  from assms(2) have "\<exists>k \<in> fst ` set ?ys. map_of ?xs k \<noteq> None"
    by (rule shared_name_present)
  with assms(1) have "merge_loop ?xs ?ys =
     (Inl (NotImplementedError ''Merge not implemented yet.''),
      ?xs @ takeWhile (\<lambda>(k, v). map_of ?xs k = None) ?ys)"
    by (rule merge_loop_shared)
  then have res: "Schema_merge self other =
      (Inl (NotImplementedError ''Merge not implemented yet.''),
       self\<lparr>column_schemas := ?xs @ takeWhile (\<lambda>(k, v). map_of ?xs k = None) ?ys\<rparr>)"
    by (simp add: Schema_merge_def)
  have "map_of (?xs @ zs) k = Some c" if "map_of ?xs k = Some c" for k c zs
    using that by (simp add: map_add_def split: option.splits)
  with res show ?thesis by simp
qed

text \<open>
  C6 at a receiver with columns \<open>a\<close> and \<open>b\<close> and an argument with columns \<open>c\<close>,
  \<open>a\<close> and \<open>d\<close>: the call raises at \<open>a\<close>, after it has inserted \<open>c\<close>.
\<close>

theorem Schema_merge_shared_name_witness:
  "distinct (map fst (column_schemas
     \<lparr>column_schemas = [(''c'', sparse_column), (''a'', sparse_column), (''d'', list_column)]\<rparr>)) \<and>
   fst ` set (column_schemas \<lparr>column_schemas = [(''a'', fixed_column), (''b'', list_column)]\<rparr>) \<inter>
   fst ` set (column_schemas
     \<lparr>column_schemas = [(''c'', sparse_column), (''a'', sparse_column), (''d'', list_column)]\<rparr>)
     \<noteq> {} \<and>
   Schema_merge \<lparr>column_schemas = [(''a'', fixed_column), (''b'', list_column)]\<rparr>
     \<lparr>column_schemas = [(''c'', sparse_column), (''a'', sparse_column), (''d'', list_column)]\<rparr> =
     (Inl (NotImplementedError ''Merge not implemented yet.''),
      \<lparr>column_schemas =
         [(''a'', fixed_column), (''b'', list_column), (''c'', sparse_column)]\<rparr>)"
proof -
  let ?self = "\<lparr>column_schemas = [(''a'', fixed_column), (''b'', list_column)]\<rparr>"
  let ?other = "\<lparr>column_schemas =
      [(''c'', sparse_column), (''a'', sparse_column), (''d'', list_column)]\<rparr>"
  have h1: "distinct (map fst (column_schemas ?other))" by simp
  have h2: "fst ` set (column_schemas ?self) \<inter> fst ` set (column_schemas ?other) \<noteq> {}"
    by simp
  from Schema_merge_shared_name [OF h1 h2]
  have "Schema_merge ?self ?other =
      (Inl (NotImplementedError ''Merge not implemented yet.''),
       ?self\<lparr>column_schemas := column_schemas ?self @
          takeWhile (\<lambda>(k, v). map_of (column_schemas ?self) k = None) (column_schemas ?other)\<rparr>)"
    by blast
  then have "Schema_merge ?self ?other =
      (Inl (NotImplementedError ''Merge not implemented yet.''),
       \<lparr>column_schemas =
          [(''a'', fixed_column), (''b'', list_column), (''c'', sparse_column)]\<rparr>)"
    by simp
  with h1 h2 show ?thesis by blast
qed

subsection \<open>The round trip through a feature spec\<close>

lemma mk_Axis_axis_size: "map (mk_Axis \<circ> axis_size) ax = ax"
  by (induction ax) simp_all

lemma is_list_PyList: "is_list q \<Longrightarrow> q = PyList (elements q)"
  by (cases q) simp_all

text \<open>A column that satisfies the precondition is converted to a feature and back.\<close>

lemma column_round_trip:
  assumes "round_trip_precondition cs"
  shows "\<exists>f. ColumnSchema_as_feature_spec cs = Inr f \<and> internal_from_parse_feature f = Inr cs"
proof -
  obtain lc rep where cs: "cs = \<lparr>logical_column = lc, representation = rep\<rparr>"
    by (cases cs) simp
  obtain dmn sho where lc: "lc = \<lparr>domain = dmn, shape = sho\<rparr>"
    by (cases lc) simp
  from assms cs lc have canon: "internal_dtype_to_domain (dtype dmn) = Inr dmn"
    by (simp add: round_trip_precondition_def canonical_domain_def)
  from assms cs lc have lists: "sequences_are_lists cs"
    by (simp add: round_trip_precondition_def)
  show ?thesis
  proof (cases rep)
    case (FixedColumnRepresentation dv)
    with assms cs lc obtain sh where sh: "sho = Some sh" "LogicalShape_is_fixed_size sh"
      by (auto simp: round_trip_precondition_def variant_precondition_def split: option.splits)
    then obtain ax where ax: "axes sh = Some ax"
      by (auto simp: LogicalShape_is_fixed_size_def split: option.splits)
    with lists cs lc sh have "is_list ax"
      by (simp add: sequences_are_lists_def)
    then have ax_list: "ax = PyList (elements ax)" by (rule is_list_PyList)
    with ax have sh_eq: "sh = mk_LogicalShape (Some (PyList (elements ax)))"
      by (cases sh) simp
    from sh ax have "ColumnSchema_as_feature_spec cs =
        Inr (FixedLenFeature (Some (map axis_size (elements ax))) (dtype dmn) dv)"
      by (simp add: cs lc FixedColumnRepresentation ColumnSchema_as_feature_spec_def
          FixedColumnRepresentation_as_feature_spec_def LogicalShape_tf_shape_def as_list_def)
    moreover have "internal_from_parse_feature
        (FixedLenFeature (Some (map axis_size (elements ax))) (dtype dmn) dv) = Inr cs"
      by (simp add: canon internal_tf_shape_to_logical_shape_def mk_Axis_axis_size
          cs lc FixedColumnRepresentation sh(1) sh_eq)
    ultimately show ?thesis by blast
  next
    case ListColumnRepresentation
    with assms cs lc have "sho = Some (mk_LogicalShape (Some (PyList [mk_Axis None])))"
      by (simp add: round_trip_precondition_def list_shape_is_ragged_def)
    moreover have "ColumnSchema_as_feature_spec cs = Inr (VarLenFeature (dtype dmn))"
      by (simp add: cs lc ListColumnRepresentation ColumnSchema_as_feature_spec_def
          ListColumnRepresentation_as_feature_spec_def)
    ultimately show ?thesis
      by (simp add: canon cs lc ListColumnRepresentation)
  next
    case (SparseColumnRepresentation vf ind)
    with assms cs lc obtain sh ax where sh: "sho = Some sh" "axes sh = Some ax"
      and len: "length (elements ind) = 1" "length (elements ax) = 1"
      by (auto simp: round_trip_precondition_def variant_precondition_def split: option.splits)
    from lists cs lc sh SparseColumnRepresentation have "is_list ax" "is_list ind"
      by (simp_all add: sequences_are_lists_def)
    then have kinds: "ax = PyList (elements ax)" "ind = PyList (elements ind)"
      by (simp_all add: is_list_PyList [symmetric])
    from len obtain i a where ia: "elements ind = [i]" "elements ax = [a]"
      by (cases "elements ind"; cases "elements ax") auto
    with kinds have ia': "ind = PyList [i]" "ax = PyList [a]" by simp_all
    from sh ia' have sh_eq: "sh = mk_LogicalShape (Some (PyList [a]))" by (cases sh) simp
    from sh ia' have "ColumnSchema_as_feature_spec cs =
        Inr (SparseFeature (name i) vf (dtype dmn) (axis_size a) (is_sorted i))"
      by (simp add: cs lc SparseColumnRepresentation ColumnSchema_as_feature_spec_def
          SparseColumnRepresentation_as_feature_spec_def)
    moreover have "internal_from_parse_feature
        (SparseFeature (name i) vf (dtype dmn) (axis_size a) (is_sorted i)) = Inr cs"
      by (simp add: canon cs lc SparseColumnRepresentation sh(1) sh_eq ia')
    ultimately show ?thesis by blast
  qed
qed

text \<open>
  C1, as stated: the round trip gives back every schema whose columns satisfy the
  preconditions of their representations. Three schemas that do, and that the round
  trip does not give back: a list column of shape \<open>[3]\<close> comes back with the shape of
  a single axis of unknown size; a fixed column whose domain holds the reference dtype
  \<^verbatim>\<open>tf.int32_ref\<close> is refused by \<^verbatim>\<open>from_feature_spec\<close>; and a sparse column whose index
  fields are a tuple comes back with a list, which is not equal to the tuple.
\<close>

theorem round_trip_is_not_identity:
  "list_all variant_precondition
     (map snd (column_schemas \<lparr>column_schemas = [(''x'', sized_list_column)]\<rparr>)) \<and>
   Schema_as_feature_spec \<lparr>column_schemas = [(''x'', sized_list_column)]\<rparr> =
     Inr [(''x'', VarLenFeature tf_int64)] \<and>
   from_feature_spec [(''x'', VarLenFeature tf_int64 :: int parse_feature)] =
     Inr \<lparr>column_schemas =
       [(''x'', \<lparr>logical_column =
                  \<lparr>domain = IntDomain tf_int64,
                   shape = Some (mk_LogicalShape (Some (PyList [mk_Axis None])))\<rparr>,
                representation = ListColumnRepresentation\<rparr>)]\<rparr> \<and>
   \<not> Schema_eq
     \<lparr>column_schemas =
       [(''x'', \<lparr>logical_column =
                  \<lparr>domain = IntDomain tf_int64,
                   shape = Some (mk_LogicalShape (Some (PyList [mk_Axis None])))\<rparr>,
                representation = ListColumnRepresentation\<rparr>)]\<rparr>
     \<lparr>column_schemas = [(''x'', sized_list_column)]\<rparr> \<and>
   list_all variant_precondition
     (map snd (column_schemas \<lparr>column_schemas = [(''y'', reference_column)]\<rparr>)) \<and>
   round_trip \<lparr>column_schemas = [(''y'', reference_column)]\<rparr> =
     Inl (ValueError (''DatasetSchema does not yet support dtype: '' @ dtype_str tf_int32_ref)) \<and>
   list_all variant_precondition
     (map snd (column_schemas \<lparr>column_schemas = [(''z'', tuple_sparse_column)]\<rparr>)) \<and>
   round_trip \<lparr>column_schemas = [(''z'', tuple_sparse_column)]\<rparr> =
     Inr \<lparr>column_schemas = [(''z'', sparse_column)]\<rparr> \<and>
   \<not> Schema_eq \<lparr>column_schemas = [(''z'', sparse_column)]\<rparr>
     \<lparr>column_schemas = [(''z'', tuple_sparse_column)]\<rparr>"
  by (simp add: variant_precondition_def sized_list_column_def reference_column_def
      sparse_column_def tuple_sparse_column_def
      round_trip_def Schema_as_feature_spec_def ColumnSchema_as_feature_spec_def
      ListColumnRepresentation_as_feature_spec_def FixedColumnRepresentation_as_feature_spec_def
      SparseColumnRepresentation_as_feature_spec_def
      LogicalShape_is_fixed_size_def LogicalShape_tf_shape_def as_list_def
      from_feature_spec_def Schema_new_def Schema_eq_def dict_eq_def dtype_defs)

text \<open>
  C1, amended: for every schema (a dict, so with distinct column names) whose columns
  satisfy the preconditions of their representations, and moreover have the domain
  that \<^verbatim>\<open>_dtype_to_domain\<close> gives to their dtype, when represented as a list the shape
  of a single axis of unknown size, and their axes and index fields held as lists,
  \<^verbatim>\<open>as_feature_spec\<close> returns a feature spec from which \<^verbatim>\<open>from_feature_spec\<close> returns
  a schema equal to the original.
\<close>

theorem round_trip_identity:
  assumes "distinct (map fst (column_schemas s))"
    and "list_all round_trip_precondition (map snd (column_schemas s))"
  shows "\<exists>feature_spec s'. Schema_as_feature_spec s = Inr feature_spec \<and>
      from_feature_spec feature_spec = Inr s' \<and> Schema_eq s' s \<and> s' = s \<and>
      round_trip s = Inr s"
proof -
  let ?xs = "column_schemas s"
  let ?g = "\<lambda>c. projr (ColumnSchema_as_feature_spec c)"
  let ?h = "\<lambda>f. projr (internal_from_parse_feature f)"
  let ?fs = "map (\<lambda>(k, c). (k, ?g c)) ?xs"
  have col: "ColumnSchema_as_feature_spec c = Inr (?g c) \<and>
      internal_from_parse_feature (?g c) = Inr c" if "c \<in> snd ` set ?xs" for c
  proof -
    from that assms(2) have "round_trip_precondition c"
      by (auto simp: list_all_iff)
    then obtain f where "ColumnSchema_as_feature_spec c = Inr f"
      "internal_from_parse_feature f = Inr c"
      using column_round_trip by blast
    then show ?thesis by simp
  qed
  have "dict_comprehension ColumnSchema_as_feature_spec [] ?xs = Inr ([] @ ?fs)"
    using assms(1) col by (intro dict_comprehension_ok) simp_all
  then have to_fs: "Schema_as_feature_spec s = Inr ?fs"
    by (simp add: Schema_as_feature_spec_def)
  have keys: "map fst ?fs = map fst ?xs"
    by (induction ?xs) auto
  have back_each: "\<forall>f \<in> snd ` set ?fs. internal_from_parse_feature f = Inr (?h f)"
    using col by force
  have keys_distinct: "distinct (map fst ?fs)"
    unfolding keys by (rule assms(1))
  have "dict_comprehension internal_from_parse_feature [] ?fs =
      Inr ([] @ map (\<lambda>(k, f). (k, ?h f)) ?fs)"
    by (rule dict_comprehension_ok [OF keys_distinct _ back_each]) simp
  moreover have "map (\<lambda>(k, f). (k, ?h f)) ?fs = ?xs"
  proof -
    have "map (\<lambda>(k, f). (k, ?h f)) ?fs = map (\<lambda>(k, c). (k, ?h (?g c))) ?xs"
      by (simp add: case_prod_unfold)
    also have "\<dots> = map (\<lambda>p. p) ?xs"
    proof (rule map_cong)
      fix p assume "p \<in> set ?xs"
      then have "snd p \<in> snd ` set ?xs" by simp
      from col [OF this] show "(case p of (k, c) \<Rightarrow> (k, ?h (?g c))) = p"
        by (cases p) simp
    qed simp
    finally show ?thesis by simp
  qed
  ultimately have "dict_comprehension internal_from_parse_feature [] ?fs = Inr ?xs"
    by simp
  then have from_fs: "from_feature_spec ?fs = Inr s"
    by (simp add: from_feature_spec_def Schema_new_def)
  from assms(1) have "Schema_eq s s"
    by (simp add: Schema_eq_def dict_eq_refl)
  with to_fs from_fs show ?thesis by (simp add: round_trip_def)
qed

text \<open>
  The amended C1 at a schema with a fixed, a list and a sparse column.
\<close>

theorem round_trip_identity_witness:
  "distinct (map fst (column_schemas
     \<lparr>column_schemas = [(''a'', fixed_column), (''b'', list_column), (''c'', sparse_column)]\<rparr>)) \<and>
   list_all round_trip_precondition (map snd (column_schemas
     \<lparr>column_schemas = [(''a'', fixed_column), (''b'', list_column), (''c'', sparse_column)]\<rparr>)) \<and>
   round_trip
     \<lparr>column_schemas = [(''a'', fixed_column), (''b'', list_column), (''c'', sparse_column)]\<rparr> =
   Inr \<lparr>column_schemas = [(''a'', fixed_column), (''b'', list_column), (''c'', sparse_column)]\<rparr>"
proof -
  let ?s = "\<lparr>column_schemas =
      [(''a'', fixed_column), (''b'', list_column), (''c'', sparse_column)]\<rparr>"
  have h1: "distinct (map fst (column_schemas ?s))" by simp
  have h2: "list_all round_trip_precondition (map snd (column_schemas ?s))"
    by (simp add: round_trip_precondition_def variant_precondition_def canonical_domain_def
        list_shape_is_ragged_def sequences_are_lists_def
        fixed_column_def list_column_def sparse_column_def
        LogicalShape_is_fixed_size_def dtype_defs)
  from round_trip_identity [OF h1 h2] have "round_trip ?s = Inr ?s" by blast
  with h1 h2 show ?thesis by blast
qed

end
